theory Spec2Isabelle
  imports Main "HOL-Library.Word"
begin

section \<open>Data model of \<open>src/gpu/GrBitmapTextureMaker.cpp\<close>\<close>

text \<open>
  The unit resolves a CPU bitmap into a GPU texture proxy, with a keyed cache and a
  mip upgrade. Everything it calls (the bitmap, the capability query, the proxy
  provider, key construction, the invalidator) is declared outside \<open>src/\<close>; those
  collaborators are kept abstract: their fallible results are read from a record of
  outcomes, and every call is appended to a log together with its result.
\<close>

subsection \<open>Enumerations\<close>

text \<open>
  The colour-type enumerations are declared outside \<open>src/\<close>. The code names one member
  of each (\<open>kRGBA_8888_SkColorType\<close>, \<open>GrColorType::kRGBA_8888\<close>); the other members
  are kept as numbered constructors.
\<close>

datatype SkColorType = kRGBA_8888_SkColorType | SkColorType_other nat

datatype GrColorType = kRGBA_8888 | GrColorType_other nat

datatype GrMipMapped = GrMipMapped_kNo | GrMipMapped_kYes

datatype Cached = Cached_kNo | Cached_kYes

datatype AllowedTexGenType = kCheap | kAny

datatype SkBackingFit = kApprox | kExact

subsection \<open>Bitmap and image info\<close>

record SkIPoint =
  fX :: "32 word"
  fY :: "32 word"

text \<open>
  Modelled from the spec: \<open>SkIRect::MakeXYWH\<close> is declared outside \<open>src/\<close>. The spec
  calls the subset rectangle "the offset+size view into that buffer", so the rectangle
  keeps the four arguments it was made from.
\<close>

datatype SkIRect = MakeXYWH "32 word" "32 word" "32 word" "32 word"

record SkImageInfo =
  info_colorType :: SkColorType
  info_alphaType :: nat
  info_colorSpace :: "nat option"
  info_width :: "32 word"
  info_height :: "32 word"

text \<open>\<open>SkImageInfo::makeColorType\<close>: the same info with another colour type.\<close>

definition makeColorType :: "SkImageInfo \<Rightarrow> SkColorType \<Rightarrow> SkImageInfo" where
  "makeColorType i ct = i\<lparr>info_colorType := ct\<rparr>"

text \<open>
  A bitmap as the unit reads it: its info, the volatile flag, the origin inside its
  pixel ref and the generation ID of that pixel ref (\<open>pixelRef()->getGenerationID()\<close>).
\<close>

record SkBitmap =
  info :: SkImageInfo
  isVolatile :: bool
  pixelRefOrigin :: SkIPoint
  getGenerationID :: "32 word"

record GrImageInfo =
  gr_colorType :: GrColorType
  gr_alphaType :: nat
  gr_colorSpace :: "nat option"
  gr_width :: "32 word"
  gr_height :: "32 word"

subsection \<open>Keys\<close>

record CopyParams =
  cp_filter :: nat
  cp_width :: "32 word"
  cp_height :: "32 word"

text \<open>
  Modelled from the spec: \<open>GrMakeKeyFromImageID\<close> and \<open>MakeCopyKeyFromOrigKey\<close> are
  declared outside \<open>src/\<close>. The spec describes the cache key as a "deterministic,
  collision-resistant value derived from Image Identity" and the copy key as "derived
  from a CacheKey plus a small set of transform parameters"; both are free constructors
  here. A \<open>GrUniqueKey\<close> object that is not valid (default constructed) is \<open>None\<close>.
\<close>

datatype GrUniqueKey =
    GrMakeKeyFromImageID "32 word" SkIRect
  | MakeCopyKeyFromOrigKey GrUniqueKey CopyParams

subsection \<open>Proxies, the store and the log\<close>

record GrTextureProxy =
  uniqueID :: nat
  mipMapped :: GrMipMapped

text \<open>One entry of the log for every call to a collaborator, with the call's result.\<close>

datatype event =
    EvFind GrUniqueKey GrColorType "GrTextureProxy option"
  | EvTryAllocPixels SkImageInfo bool
  | EvReadPixels SkImageInfo bool
  | EvCreate SkImageInfo GrMipMapped SkBackingFit "GrTextureProxy option"
  | EvAssignKey GrUniqueKey GrTextureProxy
  | EvRemoveKey GrTextureProxy
  | EvCopyBase GrTextureProxy GrColorType "GrTextureProxy option"
  | EvInstallInvalidator GrUniqueKey "32 word" "32 word"

text \<open>
  The state the unit works on: the proxy provider's key table and context ID, the
  counter new proxies take their ID from, the invalidators installed so far (key,
  context ID, generation ID of the pixel ref listened to), and the log.
\<close>

record world =
  contextID :: "32 word"
  keyed :: "GrUniqueKey \<rightharpoonup> GrTextureProxy"
  nextID :: nat
  invalidators :: "(GrUniqueKey \<times> 32 word \<times> 32 word) list"
  trace :: "event list"

text \<open>
  The results of the collaborators' calls that the unit branches on. They are
  parameters: the capability query, the colour-type conversion table, whether the
  8888 copy can be allocated and read, what \<open>createProxyFromBitmap\<close> returns (nothing,
  or a proxy of some mip status, which need not be the requested one), and whether the
  base level can be copied into a new mipped proxy.
\<close>

record outcomes =
  SkColorTypeToGrColorType :: "SkColorType \<Rightarrow> GrColorType"
  formatIsValid :: "GrColorType \<Rightarrow> bool"
  allocOutcome :: "SkImageInfo \<Rightarrow> bool"
  readOutcome :: "SkBitmap \<Rightarrow> SkImageInfo \<Rightarrow> bool"
  createOutcome :: "SkImageInfo \<Rightarrow> GrMipMapped \<Rightarrow> SkBackingFit \<Rightarrow> GrMipMapped option"
  copyOutcome :: "GrTextureProxy \<Rightarrow> GrColorType \<Rightarrow> bool"

definition logged :: "event \<Rightarrow> world \<Rightarrow> world" where
  "logged e w = w\<lparr>trace := trace w @ [e]\<rparr>"

text \<open>The log entries added between an earlier state and a later one.\<close>

definition events :: "world \<Rightarrow> world \<Rightarrow> event list" where
  "events w w' = drop (length (trace w)) (trace w')"

subsection \<open>The collaborators' operations\<close>

text \<open>
  Modelled from the spec: \<open>GrProxyProvider::findOrCreateProxyByUniqueKey\<close> is declared
  outside \<open>src/\<close>; the spec gives \<open>findByKey(key) -> Optional<TextureResource>\<close> on "a
  mapping from a structured key to a GPU texture resource handle".
\<close>

definition findOrCreateProxyByUniqueKey ::
  "GrUniqueKey \<Rightarrow> GrColorType \<Rightarrow> world \<Rightarrow> GrTextureProxy option \<times> world" where
  "findOrCreateProxyByUniqueKey key ct w = (keyed w key, logged (EvFind key ct (keyed w key)) w)"

text \<open>
  Modelled from the spec: \<open>SkBitmap::tryAllocPixels\<close> and \<open>SkBitmap::readPixels\<close> are
  declared outside \<open>src/\<close>; the spec says that they "either complete or fail within
  the call".
\<close>

definition tryAllocPixels :: "outcomes \<Rightarrow> SkImageInfo \<Rightarrow> world \<Rightarrow> bool \<times> world" where
  "tryAllocPixels ext i w = (allocOutcome ext i, logged (EvTryAllocPixels i (allocOutcome ext i)) w)"

definition readPixels :: "outcomes \<Rightarrow> SkBitmap \<Rightarrow> SkImageInfo \<Rightarrow> world \<Rightarrow> bool \<times> world" where
  "readPixels ext b i w = (readOutcome ext b i, logged (EvReadPixels i (readOutcome ext b i)) w)"

text \<open>
  Modelled from the spec: \<open>GrProxyProvider::createProxyFromBitmap\<close> is declared outside
  \<open>src/\<close>; the spec gives \<open>createFromPixels(pixels, mipped, fit) ->
  Optional<TextureResource>\<close>. The bitmap handed over is identified by its image info.
\<close>

definition createProxyFromBitmap ::
  "outcomes \<Rightarrow> SkImageInfo \<Rightarrow> GrMipMapped \<Rightarrow> SkBackingFit \<Rightarrow> world \<Rightarrow> GrTextureProxy option \<times> world" where
  "createProxyFromBitmap ext i mm fit w =
     (case createOutcome ext i mm fit of
        None \<Rightarrow> (None, logged (EvCreate i mm fit None) w)
      | Some m \<Rightarrow>
          (let p = \<lparr>uniqueID = nextID w, mipMapped = m\<rparr>
           in (Some p, logged (EvCreate i mm fit (Some p)) (w\<lparr>nextID := Suc (nextID w)\<rparr>))))"

text \<open>
  Modelled from the spec: \<open>assignUniqueKeyToProxy\<close> and \<open>removeUniqueKeyFromProxy\<close> are
  declared outside \<open>src/\<close>; the spec gives \<open>assignKey(key, resource)\<close> and
  \<open>removeKey(resource)\<close> on the key mapping.
\<close>

definition assignUniqueKeyToProxy :: "GrUniqueKey \<Rightarrow> GrTextureProxy \<Rightarrow> world \<Rightarrow> world" where
  "assignUniqueKeyToProxy key p w = logged (EvAssignKey key p) (w\<lparr>keyed := (keyed w)(key \<mapsto> p)\<rparr>)"

definition removeUniqueKeyFromProxy :: "GrTextureProxy \<Rightarrow> world \<Rightarrow> world" where
  "removeUniqueKeyFromProxy p w =
     logged (EvRemoveKey p)
       (w\<lparr>keyed := (\<lambda>k. if keyed w k = Some p then None else keyed w k)\<rparr>)"

text \<open>
  Modelled from the spec: \<open>GrCopyBaseMipMapToTextureProxy\<close> is declared outside \<open>src/\<close>;
  the spec gives \<open>copyBaseIntoMipped(resource, colorEncoding) ->
  Optional<TextureResource>\<close>, which on success is "a new Mipped resource".
\<close>

definition GrCopyBaseMipMapToTextureProxy ::
  "outcomes \<Rightarrow> GrTextureProxy \<Rightarrow> GrColorType \<Rightarrow> world \<Rightarrow> GrTextureProxy option \<times> world" where
  "GrCopyBaseMipMapToTextureProxy ext p ct w =
     (if copyOutcome ext p ct
      then (let mp = \<lparr>uniqueID = nextID w, mipMapped = GrMipMapped_kYes\<rparr>
            in (Some mp, logged (EvCopyBase p ct (Some mp)) (w\<lparr>nextID := Suc (nextID w)\<rparr>)))
      else (None, logged (EvCopyBase p ct None) w))"

text \<open>
  Modelled from the spec: \<open>GrInstallBitmapUniqueKeyInvalidator\<close> is declared outside
  \<open>src/\<close>; the spec gives \<open>registerInvalidation(cacheKey, storeIdentity, image)\<close>, which
  "subscribes to the image's mutation notifications".
\<close>

definition GrInstallBitmapUniqueKeyInvalidator ::
  "GrUniqueKey \<Rightarrow> 32 word \<Rightarrow> 32 word \<Rightarrow> world \<Rightarrow> world" where
  "GrInstallBitmapUniqueKeyInvalidator key cid gen w =
     logged (EvInstallInvalidator key cid gen)
       (w\<lparr>invalidators := invalidators w @ [(key, cid, gen)]\<rparr>)"

section \<open>The unit\<close>

subsection \<open>\<open>get_image_info\<close> (lines 20-27)\<close>

definition get_image_info :: "outcomes \<Rightarrow> SkBitmap \<Rightarrow> GrImageInfo" where
  "get_image_info ext bitmap =
     (let ct = SkColorTypeToGrColorType ext (info_colorType (info bitmap));
          ct' = (if \<not> formatIsValid ext ct then kRGBA_8888 else ct)
      in \<lparr>gr_colorType = ct', gr_alphaType = info_alphaType (info bitmap),
          gr_colorSpace = info_colorSpace (info bitmap),
          gr_width = info_width (info bitmap), gr_height = info_height (info bitmap)\<rparr>)"

subsection \<open>The constructor (lines 29-40)\<close>

record maker =
  fImageInfo :: GrImageInfo
  fDomainNeedsDecal :: bool
  fBitmap :: SkBitmap
  fFit :: SkBackingFit
  fOriginalKey :: "GrUniqueKey option"

definition GrBitmapTextureMaker ::
  "outcomes \<Rightarrow> SkBitmap \<Rightarrow> Cached \<Rightarrow> SkBackingFit \<Rightarrow> bool \<Rightarrow> maker" where
  "GrBitmapTextureMaker ext bitmap cached fit useDecal =
     \<lparr>fImageInfo = get_image_info ext bitmap,
      fDomainNeedsDecal = useDecal,
      fBitmap = bitmap,
      fFit = fit,
      fOriginalKey =
        (if \<not> isVolatile bitmap \<and> cached = Cached_kYes
         then (let origin = pixelRefOrigin bitmap;
                   subset = MakeXYWH (fX origin) (fY origin)
                              (info_width (info bitmap)) (info_height (info bitmap))
               in Some (GrMakeKeyFromImageID (getGenerationID bitmap) subset))
         else None)\<rparr>"

subsection \<open>\<open>refOriginalTextureProxy\<close> (lines 42-121)\<close>

text \<open>
  The function leaves through a \<open>return\<close> in the middle of a block or falls through to
  the next block with the local \<open>proxy\<close>. Each block of the source is one definition
  that says which of the two happened. The \<open>SkASSERT\<close>s are debug checks and take no
  part in the result; what those of lines 91, 92 and 107 state is proved below.
\<close>

datatype flow = Return "GrTextureProxy option" | Proceed "GrTextureProxy option"

text \<open>Lines 51-58: the keyed lookup.\<close>

definition keyedLookup :: "outcomes \<Rightarrow> maker \<Rightarrow> bool \<Rightarrow> world \<Rightarrow> flow \<times> world" where
  "keyedLookup ext this willBeMipped w =
     (case fOriginalKey this of
        None \<Rightarrow> (Proceed None, w)
      | Some key \<Rightarrow>
          (let colorType = SkColorTypeToGrColorType ext (info_colorType (info (fBitmap this)));
               (proxy, w1) = findOrCreateProxyByUniqueKey key colorType w
           in (case proxy of
                 None \<Rightarrow> (Proceed None, w1)
               | Some p \<Rightarrow>
                   if \<not> willBeMipped \<or> GrMipMapped_kYes = mipMapped p
                   then (Return proxy, w1)
                   else (Proceed proxy, w1))))"

text \<open>Lines 75-87: what is done with the result of \<open>createProxyFromBitmap\<close>.\<close>

definition afterCreate :: "maker \<Rightarrow> bool \<Rightarrow> GrTextureProxy option \<times> world \<Rightarrow> flow \<times> world" where
  "afterCreate this willBeMipped r =
     (case r of
        (None, w) \<Rightarrow> (Proceed None, w)
      | (Some p, w) \<Rightarrow>
          (let w1 = (case fOriginalKey this of
                       Some key \<Rightarrow> assignUniqueKeyToProxy key p w
                     | None \<Rightarrow> w)
           in if \<not> willBeMipped \<or> GrMipMapped_kYes = mipMapped p
              then (Return (Some p),
                    (case fOriginalKey this of
                       Some key \<Rightarrow>
                         GrInstallBitmapUniqueKeyInvalidator key (contextID w1)
                           (getGenerationID (fBitmap this)) w1
                     | None \<Rightarrow> w1))
              else (Proceed (Some p), w1)))"

text \<open>
  Lines 60-88: creation of a proxy from the pixels when the lookup gave none.
  \<open>copy8888.setImmutable()\<close> changes nothing that the state records.
\<close>

definition createFromPixels ::
  "outcomes \<Rightarrow> maker \<Rightarrow> bool \<Rightarrow> GrTextureProxy option \<Rightarrow> world \<Rightarrow> flow \<times> world" where
  "createFromPixels ext this willBeMipped proxy w =
     (case proxy of
        Some p \<Rightarrow> (Proceed proxy, w)
      | None \<Rightarrow>
          (let mm = (if willBeMipped then GrMipMapped_kYes else GrMipMapped_kNo)
           in if gr_colorType (fImageInfo this)
                 \<noteq> SkColorTypeToGrColorType ext (info_colorType (info (fBitmap this)))
              then (let copy8888 = makeColorType (info (fBitmap this)) kRGBA_8888_SkColorType;
                        (allocated, w1) = tryAllocPixels ext copy8888 w
                    in if \<not> allocated then (Return None, w1)
                       else (let (read, w2) = readPixels ext (fBitmap this) copy8888 w1
                             in if \<not> read then (Return None, w2)
                                else afterCreate this willBeMipped
                                       (createProxyFromBitmap ext copy8888 mm (fFit this) w2)))
              else afterCreate this willBeMipped
                     (createProxyFromBitmap ext (info (fBitmap this)) mm (fFit this) w)))"

text \<open>Lines 90-120: the mip upgrade, and the final \<open>return nullptr\<close>.\<close>

definition mipUpgrade ::
  "outcomes \<Rightarrow> maker \<Rightarrow> GrTextureProxy option \<Rightarrow> world \<Rightarrow> GrTextureProxy option \<times> world" where
  "mipUpgrade ext this proxy w =
     (case proxy of
        None \<Rightarrow> (None, w)
      | Some p \<Rightarrow>
          (let srcColorType = SkColorTypeToGrColorType ext (info_colorType (info (fBitmap this)));
               (mippedProxy, w1) = GrCopyBaseMipMapToTextureProxy ext p srcColorType w
           in (case mippedProxy of
                 Some mp \<Rightarrow>
                   (Some mp,
                    (case fOriginalKey this of
                       Some key \<Rightarrow>
                         (let w2 = removeUniqueKeyFromProxy p w1;
                              w3 = assignUniqueKeyToProxy key mp w2
                          in GrInstallBitmapUniqueKeyInvalidator key (contextID w3)
                               (getGenerationID (fBitmap this)) w3)
                     | None \<Rightarrow> w1))
               | None \<Rightarrow> (Some p, w1))))"

definition refOriginalTextureProxy ::
  "outcomes \<Rightarrow> maker \<Rightarrow> bool \<Rightarrow> AllowedTexGenType \<Rightarrow> world \<Rightarrow> GrTextureProxy option \<times> world" where
  "refOriginalTextureProxy ext this willBeMipped onlyIfFast w =
     (if kCheap = onlyIfFast then (None, w)
      else (case keyedLookup ext this willBeMipped w of
              (Return r, w1) \<Rightarrow> (r, w1)
            | (Proceed proxy, w1) \<Rightarrow>
                (case createFromPixels ext this willBeMipped proxy w1 of
                   (Return r, w2) \<Rightarrow> (r, w2)
                 | (Proceed proxy', w2) \<Rightarrow> mipUpgrade ext this proxy' w2)))"

subsection \<open>\<open>makeCopyKey\<close> (lines 123-128)\<close>

text \<open>
  The copy key is an out-parameter: the function takes the value the caller's key has
  and gives the value it has afterwards.
\<close>

definition makeCopyKey :: "maker \<Rightarrow> CopyParams \<Rightarrow> GrUniqueKey option \<Rightarrow> GrUniqueKey option" where
  "makeCopyKey this copyParams copyKey =
     (case fOriginalKey this of
        Some key \<Rightarrow> Some (MakeCopyKeyFromOrigKey key copyParams)
      | None \<Rightarrow> copyKey)"

subsection \<open>\<open>didCacheCopy\<close> (lines 130-132)\<close>

definition didCacheCopy :: "maker \<Rightarrow> GrUniqueKey \<Rightarrow> 32 word \<Rightarrow> world \<Rightarrow> world" where
  "didCacheCopy this copyKey contextUniqueID w =
     GrInstallBitmapUniqueKeyInvalidator copyKey contextUniqueID
       (getGenerationID (fBitmap this)) w"

subsection \<open>Reading the log\<close>

text \<open>The proxy a logged call returned, if it returned one.\<close>

fun produced :: "event \<Rightarrow> GrTextureProxy option" where
  "produced (EvFind k ct r) = r"
| "produced (EvCreate i mm fit r) = r"
| "produced (EvCopyBase p ct r) = r"
| "produced e = None"

text \<open>
  \<open>assigns_follow built es\<close>: every key assignment in the log \<open>es\<close> is to a proxy that
  is in \<open>built\<close> or that an earlier entry of \<open>es\<close> returned.
\<close>

fun assigns_follow :: "GrTextureProxy list \<Rightarrow> event list \<Rightarrow> bool" where
  "assigns_follow built [] = True"
| "assigns_follow built (EvAssignKey k p # es) = (p \<in> set built \<and> assigns_follow built es)"
| "assigns_follow built (e # es) =
     assigns_follow (case produced e of Some p \<Rightarrow> p # built | None \<Rightarrow> built) es"

fun is_install :: "event \<Rightarrow> bool" where
  "is_install (EvInstallInvalidator k c g) = True"
| "is_install e = False"

section \<open>Concrete inputs\<close>

text \<open>
  The scenario of the spec: a non-volatile image with generation ID 42 and subset
  (0, 0, 64, 64), in a colour type that is not RGBA-8888, and GPUs that differ in what
  they support.
\<close>

definition ex_toGr :: "SkColorType \<Rightarrow> GrColorType" where
  "ex_toGr c = (case c of kRGBA_8888_SkColorType \<Rightarrow> kRGBA_8888
                | SkColorType_other n \<Rightarrow> GrColorType_other n)"

text \<open>A GPU on which every call succeeds and a proxy is created with the mips asked for.\<close>

definition ex_gpu :: outcomes where
  "ex_gpu = \<lparr>SkColorTypeToGrColorType = ex_toGr, formatIsValid = (\<lambda>ct. True),
     allocOutcome = (\<lambda>i. True), readOutcome = (\<lambda>b i. True),
     createOutcome = (\<lambda>i mm fit. Some mm), copyOutcome = (\<lambda>p ct. True)\<rparr>"

text \<open>A GPU without mip support: proxies are created without mips and the mipped copy fails.\<close>

definition ex_gpu_nomips :: outcomes where
  "ex_gpu_nomips = \<lparr>SkColorTypeToGrColorType = ex_toGr, formatIsValid = (\<lambda>ct. True),
     allocOutcome = (\<lambda>i. True), readOutcome = (\<lambda>b i. True),
     createOutcome = (\<lambda>i mm fit. Some GrMipMapped_kNo), copyOutcome = (\<lambda>p ct. False)\<rparr>"

text \<open>GPUs that support RGBA-8888 only; on two of them the conversion fails.\<close>

definition ex_gpu_8888 :: outcomes where
  "ex_gpu_8888 = \<lparr>SkColorTypeToGrColorType = ex_toGr, formatIsValid = (\<lambda>ct. ct = kRGBA_8888),
     allocOutcome = (\<lambda>i. True), readOutcome = (\<lambda>b i. True),
     createOutcome = (\<lambda>i mm fit. Some mm), copyOutcome = (\<lambda>p ct. True)\<rparr>"

definition ex_gpu_8888_noalloc :: outcomes where
  "ex_gpu_8888_noalloc = \<lparr>SkColorTypeToGrColorType = ex_toGr,
     formatIsValid = (\<lambda>ct. ct = kRGBA_8888),
     allocOutcome = (\<lambda>i. False), readOutcome = (\<lambda>b i. True),
     createOutcome = (\<lambda>i mm fit. Some mm), copyOutcome = (\<lambda>p ct. True)\<rparr>"

definition ex_gpu_8888_noread :: outcomes where
  "ex_gpu_8888_noread = \<lparr>SkColorTypeToGrColorType = ex_toGr,
     formatIsValid = (\<lambda>ct. ct = kRGBA_8888),
     allocOutcome = (\<lambda>i. True), readOutcome = (\<lambda>b i. False),
     createOutcome = (\<lambda>i mm fit. Some mm), copyOutcome = (\<lambda>p ct. True)\<rparr>"

text \<open>A capability query that reports every colour type unsupported.\<close>

definition ex_gpu_none :: outcomes where
  "ex_gpu_none = \<lparr>SkColorTypeToGrColorType = ex_toGr, formatIsValid = (\<lambda>ct. False),
     allocOutcome = (\<lambda>i. True), readOutcome = (\<lambda>b i. True),
     createOutcome = (\<lambda>i mm fit. Some mm), copyOutcome = (\<lambda>p ct. True)\<rparr>"

definition ex_info :: SkImageInfo where
  "ex_info = \<lparr>info_colorType = SkColorType_other 2, info_alphaType = 1, info_colorSpace = None,
     info_width = 64, info_height = 64\<rparr>"

definition ex_info8888 :: SkImageInfo where
  "ex_info8888 = \<lparr>info_colorType = kRGBA_8888_SkColorType, info_alphaType = 1,
     info_colorSpace = None, info_width = 64, info_height = 64\<rparr>"

definition ex_bitmap :: SkBitmap where
  "ex_bitmap = \<lparr>info = ex_info, isVolatile = False, pixelRefOrigin = \<lparr>fX = 0, fY = 0\<rparr>,
     getGenerationID = 42\<rparr>"

definition ex_bitmap8888 :: SkBitmap where
  "ex_bitmap8888 = \<lparr>info = ex_info8888, isVolatile = False, pixelRefOrigin = \<lparr>fX = 0, fY = 0\<rparr>,
     getGenerationID = 42\<rparr>"

definition ex_volatile :: SkBitmap where
  "ex_volatile = \<lparr>info = ex_info, isVolatile = True, pixelRefOrigin = \<lparr>fX = 0, fY = 0\<rparr>,
     getGenerationID = 42\<rparr>"

definition ex_key :: GrUniqueKey where
  "ex_key = GrMakeKeyFromImageID 42 (MakeXYWH 0 0 64 64)"

definition ex_params :: CopyParams where
  "ex_params = \<lparr>cp_filter = 1, cp_width = 128, cp_height = 128\<rparr>"

definition ex_maker :: maker where
  "ex_maker = GrBitmapTextureMaker ex_gpu ex_bitmap Cached_kYes kExact False"

definition ex_maker_uncached :: maker where
  "ex_maker_uncached = GrBitmapTextureMaker ex_gpu ex_bitmap Cached_kNo kExact False"

definition ex_maker_fallback :: maker where
  "ex_maker_fallback = GrBitmapTextureMaker ex_gpu_8888 ex_bitmap Cached_kYes kExact False"

definition ex_unmipped :: GrTextureProxy where
  "ex_unmipped = \<lparr>uniqueID = 0, mipMapped = GrMipMapped_kNo\<rparr>"

definition ex_mipped :: GrTextureProxy where
  "ex_mipped = \<lparr>uniqueID = 1, mipMapped = GrMipMapped_kYes\<rparr>"

text \<open>An empty store, and one in which the key of the image holds a proxy without mips.\<close>

definition ex_empty :: world where
  "ex_empty = \<lparr>contextID = 7, keyed = Map.empty, nextID = 0, invalidators = [], trace = []\<rparr>"

definition ex_cached :: world where
  "ex_cached = \<lparr>contextID = 7, keyed = [ex_key \<mapsto> ex_unmipped], nextID = 1,
     invalidators = [(ex_key, 7, 42)], trace = []\<rparr>"

text \<open>A store in which the key of the image holds a proxy with mips.\<close>

definition ex_cached_mipped :: world where
  "ex_cached_mipped = \<lparr>contextID = 7, keyed = [ex_key \<mapsto> ex_mipped], nextID = 2,
     invalidators = [(ex_key, 7, 42)], trace = []\<rparr>"

section \<open>Properties\<close>

subsection \<open>What each collaborator call changes\<close>

lemma logged_fields [simp]:
  "trace (logged e w) = trace w @ [e]"
  "keyed (logged e w) = keyed w"
  "nextID (logged e w) = nextID w"
  "invalidators (logged e w) = invalidators w"
  "contextID (logged e w) = contextID w"
  by (simp_all add: logged_def)

lemma assign_fields [simp]:
  "trace (assignUniqueKeyToProxy k p w) = trace w @ [EvAssignKey k p]"
  "keyed (assignUniqueKeyToProxy k p w) = (keyed w)(k \<mapsto> p)"
  "nextID (assignUniqueKeyToProxy k p w) = nextID w"
  "invalidators (assignUniqueKeyToProxy k p w) = invalidators w"
  "contextID (assignUniqueKeyToProxy k p w) = contextID w"
  by (simp_all add: assignUniqueKeyToProxy_def)

lemma remove_fields [simp]:
  "trace (removeUniqueKeyFromProxy p w) = trace w @ [EvRemoveKey p]"
  "keyed (removeUniqueKeyFromProxy p w) = (\<lambda>k. if keyed w k = Some p then None else keyed w k)"
  "nextID (removeUniqueKeyFromProxy p w) = nextID w"
  "invalidators (removeUniqueKeyFromProxy p w) = invalidators w"
  "contextID (removeUniqueKeyFromProxy p w) = contextID w"
  by (simp_all add: removeUniqueKeyFromProxy_def)

lemma install_fields [simp]:
  "trace (GrInstallBitmapUniqueKeyInvalidator k c g w) = trace w @ [EvInstallInvalidator k c g]"
  "keyed (GrInstallBitmapUniqueKeyInvalidator k c g w) = keyed w"
  "nextID (GrInstallBitmapUniqueKeyInvalidator k c g w) = nextID w"
  "invalidators (GrInstallBitmapUniqueKeyInvalidator k c g w) = invalidators w @ [(k, c, g)]"
  "contextID (GrInstallBitmapUniqueKeyInvalidator k c g w) = contextID w"
  by (simp_all add: GrInstallBitmapUniqueKeyInvalidator_def)

lemma Some_eq_keyed [simp]: "(Some x = keyed w k) = (keyed w k = Some x)"
  by (rule eq_commute)

lemma kYes_eq [simp]: "(GrMipMapped_kYes = m) = (m = GrMipMapped_kYes)"
  by (rule eq_commute)

lemma not_kYes [simp]: "(m \<noteq> GrMipMapped_kYes) = (m = GrMipMapped_kNo)"
  by (cases m) simp_all

lemmas run_simps =
  refOriginalTextureProxy_def keyedLookup_def createFromPixels_def afterCreate_def
  mipUpgrade_def findOrCreateProxyByUniqueKey_def tryAllocPixels_def readPixels_def
  createProxyFromBitmap_def GrCopyBaseMipMapToTextureProxy_def Let_def events_def

lemmas ctor_simps = GrBitmapTextureMaker_def get_image_info_def makeColorType_def

lemmas ex_defs =
  ex_toGr_def ex_gpu_def ex_gpu_none_def ex_gpu_nomips_def ex_gpu_8888_def ex_gpu_8888_noalloc_def
  ex_gpu_8888_noread_def ex_info_def ex_info8888_def ex_bitmap_def ex_bitmap8888_def
  ex_volatile_def ex_key_def ex_params_def ex_maker_def ex_maker_uncached_def
  ex_maker_fallback_def ex_unmipped_def ex_mipped_def ex_empty_def ex_cached_def
  ex_cached_mipped_def

subsection \<open>The mip upgrade\<close>

text \<open>
  C1. In a call that has a valid key and in which the copy of \<open>old\<close> into a mipped proxy
  returned \<open>new\<close>: the call returns \<open>new\<close>, which is mipped, while \<open>old\<close> is not; the
  log ends with the successful copy, the removal of the key from \<open>old\<close>, its assignment
  to \<open>new\<close> and the installation of the invalidator, in this order, so the migration
  comes after the copy has returned; \<open>old\<close> held the key at that moment (it was found
  under the key, or it was created and given the key just before); afterwards the key
  refers to \<open>new\<close>, one invalidator was added, and every assignment the call made was to
  a proxy that an earlier call of the log had returned.
\<close>

theorem mip_upgrade_migrates_key:
  assumes run: "refOriginalTextureProxy ext this willBeMipped onlyIfFast w = (r, w')"
    and key: "fOriginalKey this = Some key"
    and copied: "EvCopyBase old ct (Some new) \<in> set (events w w')"
  shows "r = Some new \<and> mipMapped new = GrMipMapped_kYes \<and> mipMapped old = GrMipMapped_kNo
       \<and> keyed w' key = Some new
       \<and> invalidators w' = invalidators w @ [(key, contextID w, getGenerationID (fBitmap this))]
       \<and> (\<exists>pre. events w w' =
                   pre @ [EvCopyBase old ct (Some new), EvRemoveKey old, EvAssignKey key new,
                          EvInstallInvalidator key (contextID w) (getGenerationID (fBitmap this))]
              \<and> (pre = [EvFind key ct (Some old)] \<and> keyed w key = Some old
                 \<or> (\<exists>pre' i mm fit.
                       pre = pre' @ [EvCreate i mm fit (Some old), EvAssignKey key old])))
       \<and> assigns_follow [] (events w w')"
  using assms
  by (auto simp add: run_simps split: option.splits if_splits)

text \<open>
  Witness for C1: the image is cached without mips and mips are asked for; the copy
  succeeds and the key moves to the new proxy.
\<close>

theorem mip_upgrade_migrates_key_witness:
  "fOriginalKey ex_maker = Some ex_key
   \<and> EvCopyBase ex_unmipped (GrColorType_other 2) (Some ex_mipped)
       \<in> set (events ex_cached (snd (refOriginalTextureProxy ex_gpu ex_maker True kAny ex_cached)))
   \<and> fst (refOriginalTextureProxy ex_gpu ex_maker True kAny ex_cached) = Some ex_mipped
   \<and> keyed (snd (refOriginalTextureProxy ex_gpu ex_maker True kAny ex_cached)) ex_key
       = Some ex_mipped
   \<and> invalidators (snd (refOriginalTextureProxy ex_gpu ex_maker True kAny ex_cached))
       = [(ex_key, 7, 42), (ex_key, 7, 42)]
   \<and> events ex_cached (snd (refOriginalTextureProxy ex_gpu ex_maker True kAny ex_cached))
       = [EvFind ex_key (GrColorType_other 2) (Some ex_unmipped),
          EvCopyBase ex_unmipped (GrColorType_other 2) (Some ex_mipped),
          EvRemoveKey ex_unmipped, EvAssignKey ex_key ex_mipped,
          EvInstallInvalidator ex_key 7 42]"
proof -
  let ?run = "refOriginalTextureProxy ex_gpu ex_maker True kAny ex_cached"
  have run: "?run = (fst ?run, snd ?run)"
    by simp
  have key: "fOriginalKey ex_maker = Some ex_key"
    by (simp add: ex_defs ctor_simps)
  have evs: "events ex_cached (snd ?run)
       = [EvFind ex_key (GrColorType_other 2) (Some ex_unmipped),
          EvCopyBase ex_unmipped (GrColorType_other 2) (Some ex_mipped),
          EvRemoveKey ex_unmipped, EvAssignKey ex_key ex_mipped,
          EvInstallInvalidator ex_key 7 42]"
    by (simp add: ex_defs ctor_simps run_simps)
  have copied: "EvCopyBase ex_unmipped (GrColorType_other 2) (Some ex_mipped)
       \<in> set (events ex_cached (snd ?run))"
    by (simp add: evs)
  have inv: "invalidators ex_cached = [(ex_key, 7, 42)]" "contextID ex_cached = 7"
    "getGenerationID (fBitmap ex_maker) = 42"
    by (simp_all add: ex_defs ctor_simps)
  show ?thesis
    using mip_upgrade_migrates_key [OF run key copied] key copied evs inv
    by simp
qed



subsection \<open>Creation, key and invalidator\<close>

lemma created_key_and_invalidator:
  assumes run: "refOriginalTextureProxy ext this willBeMipped onlyIfFast w = (r, w')"
    and key: "fOriginalKey this = Some key"
    and created: "EvCreate i mm fit (Some p) \<in> set (events w w')"
  shows "EvAssignKey key p \<in> set (events w w')
       \<and> length (filter is_install (events w w'))
           = (if EvCopyBase p (SkColorTypeToGrColorType ext (info_colorType (info (fBitmap this))))
                   None \<in> set (events w w')
              then 0 else 1)"
  using assms
  by (auto simp add: run_simps split: option.splits if_splits)

text \<open>
  C3, at the input where the code departs from it: the key is valid, nothing is cached,
  mips are asked for, the proxy is created without mips and the mipped copy fails (a GPU
  without mip support). The creation succeeds and the key is assigned to the new proxy,
  which is returned, but no invalidator is installed.
\<close>

theorem fallback_installs_no_invalidator:
  "fOriginalKey ex_maker = Some ex_key
   \<and> fst (refOriginalTextureProxy ex_gpu_nomips ex_maker True kAny ex_empty) = Some ex_unmipped
   \<and> events ex_empty (snd (refOriginalTextureProxy ex_gpu_nomips ex_maker True kAny ex_empty))
       = [EvFind ex_key (GrColorType_other 2) None,
          EvCreate ex_info GrMipMapped_kYes kExact (Some ex_unmipped),
          EvAssignKey ex_key ex_unmipped,
          EvCopyBase ex_unmipped (GrColorType_other 2) None]
   \<and> keyed (snd (refOriginalTextureProxy ex_gpu_nomips ex_maker True kAny ex_empty)) ex_key
       = Some ex_unmipped
   \<and> invalidators (snd (refOriginalTextureProxy ex_gpu_nomips ex_maker True kAny ex_empty)) = []"
  by (simp add: ex_defs ctor_simps run_simps)

subsection \<open>The cheap-only policy\<close>

text \<open>
  C4 as stated fails: with the cheap-only policy the call returns nothing although the
  key of the image holds a proxy in the store.
\<close>

theorem cheap_ignores_cached_proxy:
  "fOriginalKey ex_maker = Some ex_key
   \<and> keyed ex_cached ex_key = Some ex_unmipped
   \<and> fst (refOriginalTextureProxy ex_gpu ex_maker False kCheap ex_cached) = None"
  by (simp add: ex_defs ctor_simps run_simps)

text \<open>
  C4, as the code has it: under the cheap-only policy the call returns nothing, whatever
  the store holds, and the state (key table, invalidators and log) is the one it was
  called in: the store is neither read nor changed.
\<close>

theorem cheap_returns_nothing:
  "refOriginalTextureProxy ext this willBeMipped kCheap w = (None, w)"
  by (simp add: refOriginalTextureProxy_def)

text \<open>
  Witness for C4: the cheap-only call on the store that holds the image.
\<close>

theorem cheap_returns_nothing_witness:
  "refOriginalTextureProxy ex_gpu ex_maker True kCheap ex_cached = (None, ex_cached)"
  using cheap_returns_nothing [of ex_gpu ex_maker True ex_cached]
  by simp

subsection \<open>The keyed lookup\<close>

text \<open>
  C5. A call that may create, on a maker with a valid key, in a store where that key
  holds \<open>p\<close>, where mips are not asked for or \<open>p\<close> is mipped: the call looks the key up,
  returns \<open>p\<close>, and the lookup is the only call it makes (no allocation or read of
  pixels, no creation, no key assigned or removed, no invalidator installed); key
  table, invalidators and ID counter are unchanged.
\<close>

theorem keyed_hit_returns_found:
  assumes run: "refOriginalTextureProxy ext this willBeMipped kAny w = (r, w')"
    and key: "fOriginalKey this = Some key"
    and found: "keyed w key = Some p"
    and usable: "\<not> willBeMipped \<or> mipMapped p = GrMipMapped_kYes"
  shows "r = Some p
       \<and> events w w' =
           [EvFind key (SkColorTypeToGrColorType ext (info_colorType (info (fBitmap this))))
              (Some p)]
       \<and> keyed w' = keyed w \<and> invalidators w' = invalidators w \<and> nextID w' = nextID w"
  using assms
  by (auto simp add: run_simps split: option.splits if_splits)

text \<open>
  Witness for C5, on both ways to a usable hit: the image is cached without mips and
  mips are not asked for, and the image is cached with mips and mips are asked for.
\<close>

theorem keyed_hit_returns_found_witness:
  "fOriginalKey ex_maker = Some ex_key
   \<and> keyed ex_cached ex_key = Some ex_unmipped
   \<and> fst (refOriginalTextureProxy ex_gpu ex_maker False kAny ex_cached) = Some ex_unmipped
   \<and> events ex_cached (snd (refOriginalTextureProxy ex_gpu ex_maker False kAny ex_cached))
       = [EvFind ex_key (GrColorType_other 2) (Some ex_unmipped)]
   \<and> keyed (snd (refOriginalTextureProxy ex_gpu ex_maker False kAny ex_cached)) = keyed ex_cached
   \<and> invalidators (snd (refOriginalTextureProxy ex_gpu ex_maker False kAny ex_cached))
       = invalidators ex_cached
   \<and> keyed ex_cached_mipped ex_key = Some ex_mipped
   \<and> mipMapped ex_mipped = GrMipMapped_kYes
   \<and> fst (refOriginalTextureProxy ex_gpu ex_maker True kAny ex_cached_mipped) = Some ex_mipped
   \<and> events ex_cached_mipped
        (snd (refOriginalTextureProxy ex_gpu ex_maker True kAny ex_cached_mipped))
       = [EvFind ex_key (GrColorType_other 2) (Some ex_mipped)]
   \<and> keyed (snd (refOriginalTextureProxy ex_gpu ex_maker True kAny ex_cached_mipped))
       = keyed ex_cached_mipped
   \<and> invalidators (snd (refOriginalTextureProxy ex_gpu ex_maker True kAny ex_cached_mipped))
       = invalidators ex_cached_mipped"
proof -
  let ?plain = "refOriginalTextureProxy ex_gpu ex_maker False kAny ex_cached"
  let ?mips = "refOriginalTextureProxy ex_gpu ex_maker True kAny ex_cached_mipped"
  have plain: "?plain = (fst ?plain, snd ?plain)" and mips: "?mips = (fst ?mips, snd ?mips)"
    by simp_all
  have key: "fOriginalKey ex_maker = Some ex_key"
    by (simp add: ex_defs ctor_simps)
  have found_plain: "keyed ex_cached ex_key = Some ex_unmipped"
    by (simp add: ex_defs)
  have found_mips: "keyed ex_cached_mipped ex_key = Some ex_mipped"
    by (simp add: ex_defs)
  have usable_plain: "\<not> False \<or> mipMapped ex_unmipped = GrMipMapped_kYes"
    by simp
  have mipped: "mipMapped ex_mipped = GrMipMapped_kYes"
    by (simp add: ex_defs)
  have usable_mips: "\<not> True \<or> mipMapped ex_mipped = GrMipMapped_kYes"
    using mipped by simp
  have ct: "SkColorTypeToGrColorType ex_gpu (info_colorType (info (fBitmap ex_maker)))
       = GrColorType_other 2"
    by (simp add: ex_defs ctor_simps)
  show ?thesis
    using keyed_hit_returns_found [OF plain key found_plain usable_plain]
      keyed_hit_returns_found [OF mips key found_mips usable_mips]
      key found_plain found_mips mipped ct
    by simp
qed



subsection \<open>The fallback to RGBA-8888\<close>


text \<open>
  The conversion is made when the upload colour type differs from the image's own. An
  image that is RGBA-8888 itself is uploaded as it is, also when the capability query
  reports RGBA-8888 unsupported.
\<close>

lemma unsupported_8888_is_uploaded_unconverted:
  "\<not> formatIsValid ex_gpu_none
        (SkColorTypeToGrColorType ex_gpu_none (info_colorType (info ex_bitmap8888)))
   \<and> events ex_empty
        (snd (refOriginalTextureProxy ex_gpu_none
               (GrBitmapTextureMaker ex_gpu_none ex_bitmap8888 Cached_kYes kExact False)
               False kAny ex_empty))
       = [EvFind ex_key kRGBA_8888 None,
          EvCreate ex_info8888 GrMipMapped_kNo kExact (Some ex_unmipped),
          EvAssignKey ex_key ex_unmipped,
          EvInstallInvalidator ex_key 7 42]"
  by (simp add: ex_defs ctor_simps run_simps)



subsection \<open>Key derivation\<close>

text \<open>
  C7. For a volatile bitmap, and whenever caching is not asked for, the maker that the
  constructor builds has no valid key, and a call on it assigns no key and installs no
  invalidator: the log holds no such entry, and key table and invalidators are
  unchanged. For a bitmap that is not volatile, with caching asked for, the constructor
  sets the key, built from the generation ID of the pixel ref and the subset rectangle.
\<close>

theorem volatile_or_uncached_has_no_key:
  assumes made: "this = GrBitmapTextureMaker ext0 bitmap cached fit useDecal"
    and run: "refOriginalTextureProxy ext this willBeMipped onlyIfFast w = (r, w')"
  shows "(isVolatile bitmap \<or> cached = Cached_kNo \<longrightarrow>
            fOriginalKey this = None
            \<and> (\<forall>k p. EvAssignKey k p \<notin> set (events w w'))
            \<and> (\<forall>k c g. EvInstallInvalidator k c g \<notin> set (events w w'))
            \<and> keyed w' = keyed w \<and> invalidators w' = invalidators w)
       \<and> (\<not> isVolatile bitmap \<and> cached = Cached_kYes \<longrightarrow>
            fOriginalKey this =
              Some (GrMakeKeyFromImageID (getGenerationID bitmap)
                      (MakeXYWH (fX (pixelRefOrigin bitmap)) (fY (pixelRefOrigin bitmap))
                         (info_width (info bitmap)) (info_height (info bitmap)))))"
proof -
  have nokey: "fOriginalKey this = None" if "isVolatile bitmap \<or> cached = Cached_kNo"
    using that made by (auto simp add: GrBitmapTextureMaker_def)
  have quiet: "(\<forall>k p. EvAssignKey k p \<notin> set (events w w'))
            \<and> (\<forall>k c g. EvInstallInvalidator k c g \<notin> set (events w w'))
            \<and> keyed w' = keyed w \<and> invalidators w' = invalidators w"
    if "fOriginalKey this = None"
    using that run by (auto simp add: run_simps split: option.splits if_splits)
  have haskey: "fOriginalKey this =
              Some (GrMakeKeyFromImageID (getGenerationID bitmap)
                      (MakeXYWH (fX (pixelRefOrigin bitmap)) (fY (pixelRefOrigin bitmap))
                         (info_width (info bitmap)) (info_height (info bitmap))))"
    if "\<not> isVolatile bitmap \<and> cached = Cached_kYes"
    using that made by (simp add: GrBitmapTextureMaker_def Let_def)
  show ?thesis
    using nokey quiet haskey by blast
qed

text \<open>
  Witness for C7: a volatile bitmap, a bitmap made without caching, and a cached one.
\<close>

theorem volatile_or_uncached_has_no_key_witness:
  "(isVolatile ex_volatile \<or> Cached_kYes = Cached_kNo)
   \<and> fOriginalKey (GrBitmapTextureMaker ex_gpu ex_volatile Cached_kYes kExact False) = None
   \<and> EvAssignKey ex_key ex_unmipped
       \<notin> set (events ex_empty
                (snd (refOriginalTextureProxy ex_gpu
                       (GrBitmapTextureMaker ex_gpu ex_volatile Cached_kYes kExact False)
                       True kAny ex_empty)))
   \<and> invalidators
        (snd (refOriginalTextureProxy ex_gpu
               (GrBitmapTextureMaker ex_gpu ex_volatile Cached_kYes kExact False)
               True kAny ex_empty)) = []
   \<and> (isVolatile ex_bitmap \<or> Cached_kNo = Cached_kNo)
   \<and> fOriginalKey ex_maker_uncached = None
   \<and> keyed (snd (refOriginalTextureProxy ex_gpu ex_maker_uncached True kAny ex_empty))
       = keyed ex_empty
   \<and> (\<not> isVolatile ex_bitmap \<and> Cached_kYes = Cached_kYes)
   \<and> fOriginalKey ex_maker = Some (GrMakeKeyFromImageID 42 (MakeXYWH 0 0 64 64))"
proof -
  let ?mv = "GrBitmapTextureMaker ex_gpu ex_volatile Cached_kYes kExact False"
  let ?rv = "refOriginalTextureProxy ex_gpu ?mv True kAny ex_empty"
  let ?ru = "refOriginalTextureProxy ex_gpu ex_maker_uncached True kAny ex_empty"
  let ?rc = "refOriginalTextureProxy ex_gpu ex_maker True kAny ex_empty"
  have runs: "?rv = (fst ?rv, snd ?rv)" "?ru = (fst ?ru, snd ?ru)" "?rc = (fst ?rc, snd ?rc)"
    by simp_all
  have vals: "isVolatile ex_volatile" "\<not> isVolatile ex_bitmap"
    "invalidators ex_empty = []" "getGenerationID ex_bitmap = 42"
    "pixelRefOrigin ex_bitmap = \<lparr>fX = 0, fY = 0\<rparr>"
    "info_width (info ex_bitmap) = 64" "info_height (info ex_bitmap) = 64"
    by (simp_all add: ex_defs)
  show ?thesis
    using volatile_or_uncached_has_no_key [OF refl runs(1)]
      volatile_or_uncached_has_no_key [OF ex_maker_uncached_def runs(2)]
      volatile_or_uncached_has_no_key [OF ex_maker_def runs(3)]
    by (simp add: vals)
qed

text \<open>
  C8. Two bitmaps that are not volatile and agree on the generation ID of the pixel ref
  and on the subset rectangle get the same key from the constructor, whatever else
  differs (pixels' colour type, context, fit, decal flag).
\<close>

theorem key_is_deterministic:
  assumes "\<not> isVolatile a" and "\<not> isVolatile b"
    and "getGenerationID a = getGenerationID b"
    and "MakeXYWH (fX (pixelRefOrigin a)) (fY (pixelRefOrigin a))
           (info_width (info a)) (info_height (info a))
         = MakeXYWH (fX (pixelRefOrigin b)) (fY (pixelRefOrigin b))
             (info_width (info b)) (info_height (info b))"
  shows "fOriginalKey (GrBitmapTextureMaker ext_a a cached fit_a decal_a)
       = fOriginalKey (GrBitmapTextureMaker ext_b b cached fit_b decal_b)"
  using assms
  by (simp add: GrBitmapTextureMaker_def Let_def)

text \<open>
  Witness for C8: two bitmaps of different colour types with the same identity.
\<close>

theorem key_is_deterministic_witness:
  "\<not> isVolatile ex_bitmap \<and> \<not> isVolatile ex_bitmap8888
   \<and> getGenerationID ex_bitmap = getGenerationID ex_bitmap8888
   \<and> ex_bitmap \<noteq> ex_bitmap8888
   \<and> fOriginalKey (GrBitmapTextureMaker ex_gpu ex_bitmap Cached_kYes kExact False)
       = fOriginalKey (GrBitmapTextureMaker ex_gpu_8888 ex_bitmap8888 Cached_kYes kApprox True)
   \<and> fOriginalKey (GrBitmapTextureMaker ex_gpu ex_bitmap Cached_kYes kExact False) = Some ex_key"
proof -
  have nv: "\<not> isVolatile ex_bitmap" "\<not> isVolatile ex_bitmap8888"
    by (simp_all add: ex_defs)
  have gen: "getGenerationID ex_bitmap = getGenerationID ex_bitmap8888"
    by (simp add: ex_defs)
  have subset: "MakeXYWH (fX (pixelRefOrigin ex_bitmap)) (fY (pixelRefOrigin ex_bitmap))
           (info_width (info ex_bitmap)) (info_height (info ex_bitmap))
         = MakeXYWH (fX (pixelRefOrigin ex_bitmap8888)) (fY (pixelRefOrigin ex_bitmap8888))
             (info_width (info ex_bitmap8888)) (info_height (info ex_bitmap8888))"
    by (simp add: ex_defs)
  have differ: "ex_bitmap \<noteq> ex_bitmap8888"
    by (simp add: ex_defs)
  have key: "fOriginalKey (GrBitmapTextureMaker ex_gpu ex_bitmap Cached_kYes kExact False)
       = Some ex_key"
    by (simp add: ex_defs ctor_simps)
  show ?thesis
    using key_is_deterministic [OF nv gen subset, of ex_gpu Cached_kYes kExact False
        ex_gpu_8888 kApprox True] nv gen differ key
    by simp
qed

subsection \<open>The copy key\<close>

text \<open>
  C9. Called on a key that is not valid, as a default-constructed one is, \<open>makeCopyKey\<close>
  leaves a valid copy key exactly when the maker's key is valid, and leaves it not valid
  when the maker's key is not. When the maker's key is valid, the copy key is made from
  that key and the copy parameters alone: two makers with the same key give the same
  copy key for the same parameters, whatever their bitmaps, image infos (which hold
  the colour space) and fits are and whatever the caller's key held before.
\<close>

theorem copy_key_defined_iff_key_valid:
  "((makeCopyKey this copyParams None \<noteq> None) = (fOriginalKey this \<noteq> None))
   \<and> (fOriginalKey this = None \<longrightarrow> makeCopyKey this copyParams None = None)
   \<and> (\<forall>key. fOriginalKey this = Some key \<and> fOriginalKey that = Some key \<longrightarrow>
         makeCopyKey this copyParams copyKey = makeCopyKey that copyParams copyKey'
         \<and> makeCopyKey this copyParams copyKey = Some (MakeCopyKeyFromOrigKey key copyParams))"
  by (auto simp add: makeCopyKey_def split: option.splits)

text \<open>
  Witness for C9: a maker without a key, and two different makers with the same key.
\<close>

theorem copy_key_defined_iff_key_valid_witness:
  "fOriginalKey ex_maker_uncached = None
   \<and> makeCopyKey ex_maker_uncached ex_params None = None
   \<and> fOriginalKey ex_maker = Some ex_key \<and> fOriginalKey ex_maker_fallback = Some ex_key
   \<and> ex_maker \<noteq> ex_maker_fallback
   \<and> makeCopyKey ex_maker ex_params None = makeCopyKey ex_maker_fallback ex_params (Some ex_key)
   \<and> makeCopyKey ex_maker ex_params None = Some (MakeCopyKeyFromOrigKey ex_key ex_params)"
proof -
  have nokey: "fOriginalKey ex_maker_uncached = None"
    by (simp add: ex_defs ctor_simps)
  have keys: "fOriginalKey ex_maker = Some ex_key \<and> fOriginalKey ex_maker_fallback = Some ex_key"
    by (simp add: ex_defs ctor_simps)
  have differ: "ex_maker \<noteq> ex_maker_fallback"
    by (simp add: ex_defs ctor_simps)
  show ?thesis
    using copy_key_defined_iff_key_valid [of ex_maker_uncached ex_params ex_maker_uncached None None]
      copy_key_defined_iff_key_valid [of ex_maker ex_params ex_maker_fallback None "Some ex_key"]
      nokey keys differ
    by auto
qed

end
